theory Spec2Isabelle
  imports Main
begin

section \<open>CampusConnect gamification backend: the database access layer\<close>

text \<open>
  The module \<^verbatim>\<open>backend/config/firebase.js\<close> is a script that runs once, when it is
  first required: it loads the service-account key, initialises the Firebase Admin SDK,
  asks it for the Firestore client and for six collection references, and exports them.
  The SDK and the file system are outside the repository, so they are parameters of the
  model: the key file is given by what \<^verbatim>\<open>require\<close> finds, and the SDK by the four
  functions the script calls, each of which may throw. The packages
  \<^verbatim>\<open>firebase-admin\<close> and \<^verbatim>\<open>path\<close> are taken to be installed. The script has no
  \<^verbatim>\<open>try\<close>, so the first exception ends the load.
\<close>

subsection \<open>JSON values and the JavaScript operations applied to them\<close>

text \<open>
  What a \<^verbatim>\<open>.json\<close> file parses to. The list of an object holds its own properties,
  each key once. Numbers and arrays are left out of the fragment: the script only ever
  converts one property to a string, and they would differ from the cases below only in
  the text they turn into.
\<close>

datatype json = JNull | JBool bool | JStr string | JObj "(string \<times> json) list"

datatype js_error = ModuleNotFound | SyntaxError | TypeError | SdkError string

text \<open>
  \<^verbatim>\<open>require(path.join(__dirname, 'serviceAccountKey.json'))\<close>: Node reads the file and
  parses it as JSON. A missing file throws (code \<^verbatim>\<open>MODULE_NOT_FOUND\<close>), a file that is
  not JSON throws a \<^verbatim>\<open>SyntaxError\<close>.
\<close>

datatype key_file = Absent | Invalid | Content json

fun require_json :: "key_file \<Rightarrow> js_error + json" where
  "require_json Absent = Inl ModuleNotFound"
| "require_json Invalid = Inl SyntaxError"
| "require_json (Content v) = Inr v"

text \<open>
  \<^verbatim>\<open>serviceAccount.project_id\<close>: reading a property of \<^verbatim>\<open>null\<close> throws a
  \<^verbatim>\<open>TypeError\<close>; a boolean or a string has no such property, and an object has it
  only as an own property. \<open>None\<close> is \<^verbatim>\<open>undefined\<close>.
\<close>

fun project_id :: "json \<Rightarrow> js_error + json option" where
  "project_id JNull = Inl TypeError"
| "project_id (JBool b) = Inr None"
| "project_id (JStr s) = Inr None"
| "project_id (JObj kvs) = Inr (map_of kvs ''project_id'')"

text \<open>
  The conversion a template literal applies to \<^verbatim>\<open>${...}\<close>. A plain object becomes
  \<^verbatim>\<open>[object Object]\<close> through \<^verbatim>\<open>Object.prototype.toString\<close>, unless it has an own
  property \<^verbatim>\<open>toString\<close>, which JSON cannot make callable: then the conversion throws.
\<close>

fun to_string :: "json option \<Rightarrow> js_error + string" where
  "to_string None = Inr ''undefined''"
| "to_string (Some JNull) = Inr ''null''"
| "to_string (Some (JBool b)) = Inr (if b then ''true'' else ''false'')"
| "to_string (Some (JStr s)) = Inr s"
| "to_string (Some (JObj kvs)) =
     (if ''toString'' \<in> fst ` set kvs then Inl TypeError else Inr ''[object Object]'')"

definition or_throw :: "js_error + 'a \<Rightarrow> ('a \<Rightarrow> js_error + 'b) \<Rightarrow> js_error + 'b" where
  "or_throw r f = (case r of Inl e \<Rightarrow> Inl e | Inr x \<Rightarrow> f x)"

text \<open>The template literal \<^verbatim>\<open>`https://${serviceAccount.project_id}.firebaseio.com`\<close>.\<close>

definition databaseURL_of :: "json \<Rightarrow> js_error + string" where
  "databaseURL_of serviceAccount =
     or_throw (project_id serviceAccount) (\<lambda>v.
     or_throw (to_string v) (\<lambda>s.
     Inr (''https://'' @ s @ ''.firebaseio.com'')))"

subsection \<open>The SDK as a parameter\<close>

record 'cred app_options =
  credential :: 'cred
  databaseURL :: string

text \<open>
  The four SDK entry points the script uses: \<^verbatim>\<open>admin.credential.cert\<close>,
  \<^verbatim>\<open>admin.initializeApp\<close>, \<^verbatim>\<open>admin.firestore\<close> (which reads the default app that
  \<^verbatim>\<open>initializeApp\<close> registered, passed here explicitly) and \<^verbatim>\<open>db.collection\<close>.
\<close>

record ('cred, 'app, 'db, 'coll) firebase_admin =
  cert :: "json \<Rightarrow> js_error + 'cred"
  initializeApp :: "'cred app_options \<Rightarrow> js_error + 'app"
  firestore :: "'app \<Rightarrow> js_error + 'db"
  collection :: "'db \<Rightarrow> string \<Rightarrow> js_error + 'coll"

text \<open>The SDK calls the script makes, in order, are logged next to its result.\<close>

datatype 'cred sdk_call =
  Cert json | InitializeApp "'cred app_options" | Firestore | Collection string

type_synonym ('cred, 'a) script = "'cred sdk_call list \<times> (js_error + 'a)"

definition js_step :: "js_error + 'a \<Rightarrow> ('cred, 'a) script" where
  "js_step r = ([], r)"

definition sdk_step :: "'cred sdk_call \<Rightarrow> js_error + 'a \<Rightarrow> ('cred, 'a) script" where
  "sdk_step c r = ([c], r)"

definition then_do :: "('cred, 'a) script \<Rightarrow> ('a \<Rightarrow> ('cred, 'b) script) \<Rightarrow> ('cred, 'b) script" where
  "then_do m f =
     (case m of
        (calls, Inl e) \<Rightarrow> (calls, Inl e)
      | (calls, Inr x) \<Rightarrow> (case f x of (calls', r) \<Rightarrow> (calls @ calls', r)))"

subsection \<open>The module\<close>

record ('cred, 'app, 'db, 'coll) module_exports =
  admin :: "('cred, 'app, 'db, 'coll) firebase_admin"
  db :: 'db
  collections :: "(string \<times> 'coll) list"

definition load_module ::
  "('cred, 'app, 'db, 'coll) firebase_admin \<Rightarrow> key_file \<Rightarrow>
     ('cred, ('cred, 'app, 'db, 'coll) module_exports) script" where
  "load_module sdk kf =
     then_do (js_step (require_json kf)) (\<lambda>serviceAccount.
     then_do (sdk_step (Cert serviceAccount) (cert sdk serviceAccount)) (\<lambda>cred.
     then_do (js_step (databaseURL_of serviceAccount)) (\<lambda>url.
     then_do (sdk_step (InitializeApp \<lparr>credential = cred, databaseURL = url\<rparr>)
                (initializeApp sdk \<lparr>credential = cred, databaseURL = url\<rparr>)) (\<lambda>app.
     then_do (sdk_step Firestore (firestore sdk app)) (\<lambda>d.
     then_do (sdk_step (Collection ''users'') (collection sdk d ''users'')) (\<lambda>c1.
     then_do (sdk_step (Collection ''points'') (collection sdk d ''points'')) (\<lambda>c2.
     then_do (sdk_step (Collection ''rewards'') (collection sdk d ''rewards'')) (\<lambda>c3.
     then_do (sdk_step (Collection ''redemptions'') (collection sdk d ''redemptions'')) (\<lambda>c4.
     then_do (sdk_step (Collection ''pointsHistory'') (collection sdk d ''pointsHistory'')) (\<lambda>c5.
     then_do (sdk_step (Collection ''leaderboard'') (collection sdk d ''leaderboard'')) (\<lambda>c6.
     js_step (Inr \<lparr>admin = sdk, db = d,
       collections = [(''users'', c1), (''points'', c2), (''rewards'', c3),
         (''redemptions'', c4), (''pointsHistory'', c5), (''leaderboard'', c6)]\<rparr>))))))))))))"

text \<open>
  A stand-in SDK for concrete runs, in the way the testing guide mocks external
  dependencies: every call succeeds, a credential is the key it was made from, an app is
  its database URL, and a collection reference is the path of the collection.
\<close>

definition stub_admin :: "(json, string, string, string) firebase_admin" where
  "stub_admin = \<lparr>cert = (\<lambda>sa. Inr sa), initializeApp = (\<lambda>opts. Inr (databaseURL opts)),
     firestore = (\<lambda>app. Inr app), collection = (\<lambda>d name. Inr (d @ ''/'' @ name))\<rparr>"

text \<open>A service-account key as the Firebase console issues it, cut down to three fields.\<close>

definition sample_key :: json where
  "sample_key = JObj [(''type'', JStr ''service_account''),
     (''project_id'', JStr ''campusconnect''), (''client_email'', JStr ''admin@campusconnect'')]"

text \<open>An SDK that rejects every key, as \<^verbatim>\<open>cert\<close> does for a key it cannot read.\<close>

definition rejecting_admin :: "(json, string, string, string) firebase_admin" where
  "rejecting_admin = stub_admin\<lparr>cert := (\<lambda>sa. Inl (SdkError ''invalid credential''))\<rparr>"

text \<open>An SDK that refuses to initialise, and reports the database URL it was given.\<close>

definition rejecting_app_admin :: "(json, string, string, string) firebase_admin" where
  "rejecting_app_admin =
     stub_admin\<lparr>initializeApp := (\<lambda>opts. Inl (SdkError (databaseURL opts)))\<rparr>"

section \<open>The points calculator\<close>

text \<open>Modelled from the spec: \<^verbatim>\<open>calculatePoints\<close>, the points calculator,
  whose file is not among the sources; only the sample test of the testing guide is
  (\<^verbatim>\<open>calculatePoints('academic', ['social'], false)\<close> is expected to be 15).
  The spec: "given an event category, the set of categories the user has already
  attended, and a flag indicating repeat attendance, returns an integer point award", and
  "for all categories not previously in a user's attendance set, the Points Calculator
  returns the new category award", 15. It leaves the rest of the rule table open, so the
  award for a category already attended is the parameter \<open>openRules\<close>.
\<close>

definition calculatePoints ::
  "(string \<Rightarrow> string list \<Rightarrow> bool \<Rightarrow> int) \<Rightarrow> string \<Rightarrow> string list \<Rightarrow> bool \<Rightarrow> int" where
  "calculatePoints openRules category attended isRepeat =
     (if category \<notin> set attended then 15 else openRules category attended isRepeat)"

section \<open>Properties of the database access layer\<close>

subsection \<open>The log and the result of a sequence of steps\<close>

lemma fst_then_do:
  "fst (then_do m f) = fst m @ (case snd m of Inl e \<Rightarrow> [] | Inr x \<Rightarrow> fst (f x))"
  by (simp add: then_do_def split: prod.splits sum.splits)

lemma snd_then_do:
  "snd (then_do m f) = (case snd m of Inl e \<Rightarrow> Inl e | Inr x \<Rightarrow> snd (f x))"
  by (simp add: then_do_def split: prod.splits sum.splits)

lemma fst_js_step: "fst (js_step r) = []"
  by (simp add: js_step_def)

lemma snd_js_step: "snd (js_step r) = r"
  by (simp add: js_step_def)

lemma fst_sdk_step: "fst (sdk_step c r) = [c]"
  by (simp add: sdk_step_def)

lemma snd_sdk_step: "snd (sdk_step c r) = r"
  by (simp add: sdk_step_def)

lemmas script_simps =
  fst_then_do snd_then_do fst_js_step snd_js_step fst_sdk_step snd_sdk_step

lemma databaseURL_of_string:
  "map_of kvs ''project_id'' = Some (JStr pid) \<Longrightarrow>
   databaseURL_of (JObj kvs) = Inr (''https://'' @ pid @ ''.firebaseio.com'')"
  by (simp add: databaseURL_of_def or_throw_def)

lemma databaseURL_of_sample:
  "databaseURL_of sample_key = Inr ''https://campusconnect.firebaseio.com''"
  by (simp add: databaseURL_of_def or_throw_def sample_key_def)

text \<open>The whole run of the module on the sample key with the stand-in SDK.\<close>

lemma load_stub_sample:
  "load_module stub_admin (Content sample_key) =
     ([Cert sample_key,
       InitializeApp \<lparr>credential = sample_key,
         databaseURL = ''https://campusconnect.firebaseio.com''\<rparr>,
       Firestore, Collection ''users'', Collection ''points'', Collection ''rewards'',
       Collection ''redemptions'', Collection ''pointsHistory'', Collection ''leaderboard''],
      Inr \<lparr>admin = stub_admin, db = ''https://campusconnect.firebaseio.com'',
        collections =
          [(''users'', ''https://campusconnect.firebaseio.com/users''),
           (''points'', ''https://campusconnect.firebaseio.com/points''),
           (''rewards'', ''https://campusconnect.firebaseio.com/rewards''),
           (''redemptions'', ''https://campusconnect.firebaseio.com/redemptions''),
           (''pointsHistory'', ''https://campusconnect.firebaseio.com/pointsHistory''),
           (''leaderboard'', ''https://campusconnect.firebaseio.com/leaderboard'')]\<rparr>)"
  by (simp add: load_module_def then_do_def js_step_def sdk_step_def databaseURL_of_sample
      stub_admin_def)

text \<open>
  What the load does after \<^verbatim>\<open>cert\<close> has returned: it applies \<^verbatim>\<open>initializeApp\<close> to
  the credential and the database URL, and \<^verbatim>\<open>firestore\<close> to the app that call returned.
\<close>

lemma load_initializeApp_throws:
  assumes "databaseURL_of sa = Inr url" "cert sdk sa = Inr cred"
    "initializeApp sdk \<lparr>credential = cred, databaseURL = url\<rparr> = Inl e"
  shows "load_module sdk (Content sa) =
    ([Cert sa, InitializeApp \<lparr>credential = cred, databaseURL = url\<rparr>], Inl e)"
  using assms by (simp add: load_module_def then_do_def js_step_def sdk_step_def)

lemma load_firestore_throws:
  assumes "databaseURL_of sa = Inr url" "cert sdk sa = Inr cred"
    "initializeApp sdk \<lparr>credential = cred, databaseURL = url\<rparr> = Inr app"
    "firestore sdk app = Inl e"
  shows "snd (load_module sdk (Content sa)) = Inl e"
  using assms by (simp add: load_module_def script_simps)

lemma load_success_db:
  assumes url: "databaseURL_of sa = Inr url"
    and ok: "snd (load_module sdk (Content sa)) = Inr ex"
  shows "\<exists>cred app. cert sdk sa = Inr cred \<and>
     initializeApp sdk \<lparr>credential = cred, databaseURL = url\<rparr> = Inr app \<and>
     firestore sdk app = Inr (db ex)"
proof (cases "cert sdk sa")
  case (Inl e)
  with ok show ?thesis by (simp add: load_module_def script_simps)
next
  case cred: (Inr cred)
  show ?thesis
  proof (cases "initializeApp sdk \<lparr>credential = cred, databaseURL = url\<rparr>")
    case (Inl e)
    with ok url cred show ?thesis by (simp add: load_module_def script_simps)
  next
    case app: (Inr app)
    show ?thesis
    proof (cases "firestore sdk app")
      case (Inl e)
      with ok url cred app show ?thesis by (simp add: load_module_def script_simps)
    next
      case (Inr d)
      with ok url cred app have "db ex = d"
        by (auto simp: load_module_def script_simps split: sum.splits)
      with cred app Inr show ?thesis by simp
    qed
  qed
qed

subsection \<open>Start-up with and without the key file\<close>

text \<open>
  Claim C8, as the code has it. Without the key file the load throws at the
  \<^verbatim>\<open>require\<close>, before any SDK call: no app is initialised and no collection reference
  is asked for. With a key file that holds a JSON object with a string \<^verbatim>\<open>project_id\<close>,
  the load succeeds and exports the SDK handle and the Firestore client, provided the
  SDK calls themselves return: \<^verbatim>\<open>cert\<close> on the key, \<^verbatim>\<open>initializeApp\<close> on the options,
  \<^verbatim>\<open>firestore\<close>, and \<^verbatim>\<open>collection\<close> on each of the six names.
\<close>

theorem load_module_startup:
  "load_module sdk Absent = ([], Inl ModuleNotFound) \<and>
   (map_of kvs ''project_id'' = Some (JStr pid) \<longrightarrow>
    cert sdk (JObj kvs) = Inr cred \<longrightarrow>
    initializeApp sdk
      \<lparr>credential = cred, databaseURL = ''https://'' @ pid @ ''.firebaseio.com''\<rparr> = Inr app \<longrightarrow>
    firestore sdk app = Inr d \<longrightarrow>
    (\<forall>n \<in> set [''users'', ''points'', ''rewards'', ''redemptions'', ''pointsHistory'',
        ''leaderboard'']. \<exists>c. collection sdk d n = Inr c) \<longrightarrow>
    (\<exists>ex. snd (load_module sdk (Content (JObj kvs))) = Inr ex \<and> admin ex = sdk \<and> db ex = d))"
proof (intro conjI impI)
  show "load_module sdk Absent = ([], Inl ModuleNotFound)"
    by (simp add: load_module_def then_do_def js_step_def)
next
  assume pid: "map_of kvs ''project_id'' = Some (JStr pid)"
    and cred: "cert sdk (JObj kvs) = Inr cred"
    and app: "initializeApp sdk
      \<lparr>credential = cred, databaseURL = ''https://'' @ pid @ ''.firebaseio.com''\<rparr> = Inr app"
    and d: "firestore sdk app = Inr d"
    and colls: "\<forall>n \<in> set [''users'', ''points'', ''rewards'', ''redemptions'',
        ''pointsHistory'', ''leaderboard'']. \<exists>c. collection sdk d n = Inr c"
  from colls obtain c1 c2 c3 c4 c5 c6 where
    "collection sdk d ''users'' = Inr c1" "collection sdk d ''points'' = Inr c2"
    "collection sdk d ''rewards'' = Inr c3" "collection sdk d ''redemptions'' = Inr c4"
    "collection sdk d ''pointsHistory'' = Inr c5" "collection sdk d ''leaderboard'' = Inr c6"
    by auto
  with cred app d databaseURL_of_string [OF pid]
  show "\<exists>ex. snd (load_module sdk (Content (JObj kvs))) = Inr ex \<and> admin ex = sdk \<and> db ex = d"
    by (simp add: load_module_def script_simps)
qed

theorem load_module_startup_witness:
  "load_module stub_admin Absent = ([], Inl ModuleNotFound) \<and>
   (\<exists>ex. snd (load_module stub_admin (Content sample_key)) = Inr ex \<and> admin ex = stub_admin \<and>
      db ex = ''https://campusconnect.firebaseio.com'')"
  using load_module_startup [of stub_admin
      "[(''type'', JStr ''service_account''), (''project_id'', JStr ''campusconnect''),
        (''client_email'', JStr ''admin@campusconnect'')]"
      "''campusconnect''" sample_key "''https://campusconnect.firebaseio.com''"
      "''https://campusconnect.firebaseio.com''"]
  by (simp add: stub_admin_def sample_key_def)

text \<open>
  A key file that is there does not by itself make the load succeed: a file that is not
  JSON throws at the \<^verbatim>\<open>require\<close>, a file holding \<^verbatim>\<open>null\<close> throws at
  \<^verbatim>\<open>serviceAccount.project_id\<close>, and a key the SDK rejects throws at \<^verbatim>\<open>cert\<close>.
\<close>

theorem load_module_present_counterexample:
  "Invalid \<noteq> Absent \<and> load_module stub_admin Invalid = ([], Inl SyntaxError) \<and>
   Content JNull \<noteq> Absent \<and>
   load_module stub_admin (Content JNull) = ([Cert JNull], Inl TypeError) \<and>
   Content sample_key \<noteq> Absent \<and>
   load_module rejecting_admin (Content sample_key) =
     ([Cert sample_key], Inl (SdkError ''invalid credential''))"
  by (simp add: load_module_def then_do_def js_step_def sdk_step_def stub_admin_def
      rejecting_admin_def databaseURL_of_def or_throw_def)

subsection \<open>The exported collections\<close>

text \<open>
  Claim C9. Whenever the module loads, the \<^verbatim>\<open>collections\<close> object it exports has
  exactly the six keys users, points, rewards, redemptions, pointsHistory and leaderboard,
  and the value under each key is what \<^verbatim>\<open>db.collection\<close> returned for that same name on
  the exported client.
\<close>

theorem collections_six_names:
  "snd (load_module sdk kf) = Inr ex \<Longrightarrow>
   map fst (collections ex) =
     [''users'', ''points'', ''rewards'', ''redemptions'', ''pointsHistory'', ''leaderboard''] \<and>
   (\<forall>(k, c) \<in> set (collections ex). collection sdk (db ex) k = Inr c)"
  by (auto simp: load_module_def script_simps split: sum.splits)

theorem collections_six_names_witness:
  "map fst (collections (projr (snd (load_module stub_admin (Content sample_key))))) =
     [''users'', ''points'', ''rewards'', ''redemptions'', ''pointsHistory'', ''leaderboard''] \<and>
   list_all (\<lambda>(k, c). collection stub_admin
       (db (projr (snd (load_module stub_admin (Content sample_key))))) k = Inr c)
     (collections (projr (snd (load_module stub_admin (Content sample_key)))))"
proof -
  let ?ex = "projr (snd (load_module stub_admin (Content sample_key)))"
  have "snd (load_module stub_admin (Content sample_key)) = Inr ?ex"
    by (simp add: load_stub_sample)
  from collections_six_names [OF this] show ?thesis
    by (simp add: list_all_iff)
qed

subsection \<open>The database URL\<close>

text \<open>
  Claim C10. For a service-account object whose \<^verbatim>\<open>project_id\<close> is the string \<open>pid\<close>,
  the database URL is \<^verbatim>\<open>https://\<close> followed by \<open>pid\<close> and \<^verbatim>\<open>.firebaseio.com\<close>, and any
  key with the same \<^verbatim>\<open>project_id\<close> gives the same URL, whatever else it holds. This URL
  is what \<^verbatim>\<open>initializeApp\<close> is applied to, together with the credential \<^verbatim>\<open>cert\<close>
  returned: it is the only \<^verbatim>\<open>initializeApp\<close> call of the log; if that application throws,
  the load ends there with the same exception; if it returns an app and \<^verbatim>\<open>firestore\<close>
  throws on that app, the load throws the same; and whenever the module loads, the
  exported client is what \<^verbatim>\<open>firestore\<close> returned on the app of that application.
\<close>

theorem databaseURL_from_project_id:
  "map_of kvs ''project_id'' = Some (JStr pid) \<Longrightarrow>
   databaseURL_of (JObj kvs) = Inr (''https://'' @ pid @ ''.firebaseio.com'') \<and>
   (\<forall>cred. cert sdk (JObj kvs) = Inr cred \<longrightarrow>
      InitializeApp \<lparr>credential = cred, databaseURL = ''https://'' @ pid @ ''.firebaseio.com''\<rparr>
        \<in> set (fst (load_module sdk (Content (JObj kvs))))) \<and>
   (\<forall>opts. InitializeApp opts \<in> set (fst (load_module sdk (Content (JObj kvs)))) \<longrightarrow>
      databaseURL opts = ''https://'' @ pid @ ''.firebaseio.com'') \<and>
   (\<forall>sa. project_id sa = project_id (JObj kvs) \<longrightarrow> databaseURL_of sa = databaseURL_of (JObj kvs)) \<and>
   (\<forall>cred e. cert sdk (JObj kvs) = Inr cred \<longrightarrow>
      initializeApp sdk
        \<lparr>credential = cred, databaseURL = ''https://'' @ pid @ ''.firebaseio.com''\<rparr> = Inl e \<longrightarrow>
      load_module sdk (Content (JObj kvs)) =
        ([Cert (JObj kvs), InitializeApp
           \<lparr>credential = cred, databaseURL = ''https://'' @ pid @ ''.firebaseio.com''\<rparr>], Inl e)) \<and>
   (\<forall>cred app e. cert sdk (JObj kvs) = Inr cred \<longrightarrow>
      initializeApp sdk
        \<lparr>credential = cred, databaseURL = ''https://'' @ pid @ ''.firebaseio.com''\<rparr> = Inr app \<longrightarrow>
      firestore sdk app = Inl e \<longrightarrow>
      snd (load_module sdk (Content (JObj kvs))) = Inl e) \<and>
   (\<forall>ex. snd (load_module sdk (Content (JObj kvs))) = Inr ex \<longrightarrow>
      (\<exists>cred app. cert sdk (JObj kvs) = Inr cred \<and>
         initializeApp sdk
           \<lparr>credential = cred, databaseURL = ''https://'' @ pid @ ''.firebaseio.com''\<rparr> = Inr app \<and>
         firestore sdk app = Inr (db ex)))"
proof (intro conjI allI impI)
  assume pid: "map_of kvs ''project_id'' = Some (JStr pid)"
  show url: "databaseURL_of (JObj kvs) = Inr (''https://'' @ pid @ ''.firebaseio.com'')"
    by (rule databaseURL_of_string [OF pid])
  show "InitializeApp \<lparr>credential = cred, databaseURL = ''https://'' @ pid @ ''.firebaseio.com''\<rparr>
      \<in> set (fst (load_module sdk (Content (JObj kvs))))"
    if "cert sdk (JObj kvs) = Inr cred" for cred
    using that url by (simp add: load_module_def script_simps)
  show "databaseURL opts = ''https://'' @ pid @ ''.firebaseio.com''"
    if "InitializeApp opts \<in> set (fst (load_module sdk (Content (JObj kvs))))" for opts
    using that url by (auto simp: load_module_def script_simps split: sum.splits)
  show "databaseURL_of sa = databaseURL_of (JObj kvs)"
    if "project_id sa = project_id (JObj kvs)" for sa
    using that by (simp add: databaseURL_of_def)
  show "load_module sdk (Content (JObj kvs)) =
        ([Cert (JObj kvs), InitializeApp
           \<lparr>credential = cred, databaseURL = ''https://'' @ pid @ ''.firebaseio.com''\<rparr>], Inl e)"
    if "cert sdk (JObj kvs) = Inr cred"
      and "initializeApp sdk
        \<lparr>credential = cred, databaseURL = ''https://'' @ pid @ ''.firebaseio.com''\<rparr> = Inl e"
    for cred e
    using url that by (rule load_initializeApp_throws)
  show "snd (load_module sdk (Content (JObj kvs))) = Inl e"
    if "cert sdk (JObj kvs) = Inr cred"
      and "initializeApp sdk
        \<lparr>credential = cred, databaseURL = ''https://'' @ pid @ ''.firebaseio.com''\<rparr> = Inr app"
      and "firestore sdk app = Inl e"
    for cred app e
    using url that by (rule load_firestore_throws)
  show "\<exists>cred app. cert sdk (JObj kvs) = Inr cred \<and>
         initializeApp sdk
           \<lparr>credential = cred, databaseURL = ''https://'' @ pid @ ''.firebaseio.com''\<rparr> = Inr app \<and>
         firestore sdk app = Inr (db ex)"
    if "snd (load_module sdk (Content (JObj kvs))) = Inr ex" for ex
    using url that by (rule load_success_db)
qed


theorem databaseURL_from_project_id_witness:
  "map_of [(''type'', JStr ''service_account''), (''project_id'', JStr ''campusconnect''),
     (''client_email'', JStr ''admin@campusconnect'')] ''project_id'' =
     Some (JStr ''campusconnect'') \<and>
   databaseURL_of sample_key = Inr ''https://campusconnect.firebaseio.com'' \<and>
   InitializeApp
     \<lparr>credential = sample_key, databaseURL = ''https://campusconnect.firebaseio.com''\<rparr>
     \<in> set (fst (load_module stub_admin (Content sample_key))) \<and>
   load_module rejecting_app_admin (Content sample_key) =
     ([Cert sample_key, InitializeApp
        \<lparr>credential = sample_key, databaseURL = ''https://campusconnect.firebaseio.com''\<rparr>],
      Inl (SdkError ''https://campusconnect.firebaseio.com''))"
proof -
  let ?kvs = "[(''type'', JStr ''service_account''), (''project_id'', JStr ''campusconnect''),
     (''client_email'', JStr ''admin@campusconnect'')]"
  let ?url = "''https://'' @ ''campusconnect'' @ ''.firebaseio.com''"
  have h: "map_of ?kvs ''project_id'' = Some (JStr ''campusconnect'')"
    by simp
  have key: "sample_key = JObj ?kvs"
    by (simp add: sample_key_def)
  have c: "cert stub_admin (JObj ?kvs) = Inr (JObj ?kvs)"
    by (simp add: stub_admin_def)
  have c': "cert rejecting_app_admin (JObj ?kvs) = Inr (JObj ?kvs)"
    by (simp add: rejecting_app_admin_def stub_admin_def)
  have i': "initializeApp rejecting_app_admin \<lparr>credential = JObj ?kvs, databaseURL = ?url\<rparr> =
      Inl (SdkError ?url)"
    by (simp add: rejecting_app_admin_def stub_admin_def)
  note ok = databaseURL_from_project_id [OF h, where sdk = stub_admin]
  note no = databaseURL_from_project_id [OF h, where sdk = rejecting_app_admin]
  have "databaseURL_of (JObj ?kvs) = Inr ?url"
    by (rule ok [THEN conjunct1])
  moreover have "InitializeApp \<lparr>credential = JObj ?kvs, databaseURL = ?url\<rparr>
      \<in> set (fst (load_module stub_admin (Content (JObj ?kvs))))"
    by (rule ok [THEN conjunct2, THEN conjunct1, rule_format, OF c])
  moreover have "load_module rejecting_app_admin (Content (JObj ?kvs)) =
      ([Cert (JObj ?kvs), InitializeApp \<lparr>credential = JObj ?kvs, databaseURL = ?url\<rparr>],
       Inl (SdkError ?url))"
    by (rule no [THEN conjunct2, THEN conjunct2, THEN conjunct2, THEN conjunct2, THEN conjunct1,
          rule_format, OF c' i'])
  ultimately show ?thesis
    unfolding key by simp
qed

section \<open>Properties of the points calculator\<close>

text \<open>
  Claim C1. For a category that is not in the attendance list and the repeat flag false,
  the calculator returns the new-category award of 15 points; in particular
  \<^verbatim>\<open>calculatePoints('academic', ['social'], false)\<close> is 15, the case of the testing guide.
\<close>

theorem calculatePoints_new_category:
  "(c \<notin> set A \<longrightarrow> calculatePoints openRules c A False = 15) \<and>
   calculatePoints openRules ''academic'' [''social''] False = 15"
  by (simp add: calculatePoints_def)

theorem calculatePoints_new_category_witness:
  "''sports'' \<notin> set [''social'', ''academic''] \<and>
   calculatePoints (\<lambda>c A r. 5) ''sports'' [''social'', ''academic''] False = 15"
  using calculatePoints_new_category [of "''sports''" "[''social'', ''academic'']" "\<lambda>c A r. 5"]
  by simp

end
